theory Spec2Isabelle
  imports Main
begin

section \<open>Data model\<close>

text \<open>
  The form layout is an element tree (lxml's \<open>etree\<close>): an element has a tag, an
  attribute dictionary and a list of child elements. Text, tails, comments and
  processing instructions play no part in the code and are left out.
\<close>

datatype xml = Element (tag: string) (attrib: "(string \<times> string) list") (children: "xml list")

text \<open>
  A node of a tree that the code holds a reference to is named by its path from the
  root element: the list of child indices to follow. The empty path is the root.
\<close>

type_synonym node = "nat list"

text \<open>
  Exceptions. \<open>External\<close> is any exception raised by a collaborator whose code is
  outside this module (the sequence model, the tab model, the view model);
  \<open>KeyError\<close> is Python's, on a dictionary read; \<open>TypeError\<close> is the one lxml raises
  when an element is added as a sibling of the root element.
\<close>

datatype error = External string | KeyError string | TypeError

text \<open>
  Field objects as \<open>add_field\<close> constructs them: \<open>fields.Boolean(compute=...)\<close> and
  \<open>fields.One2many(comodel_name=..., inverse_name=..., domain=..., context=...,
  string=...)\<close>, each with exactly the keyword arguments the source passes.
\<close>

datatype field_spec =
    Boolean (compute: string)
  | One2many (comodel_name: string) (inverse_name: string)
      (field_domain: "(string \<times> string \<times> int) list")
      (field_context: "(string \<times> bool) list") (field_string: string)

text \<open>
  A field is a Python object: two fields built from the same arguments are still two
  objects, and \<open>_field_computed\<close> is keyed by the object. \<open>ident\<close> is the object's
  identity.
\<close>

record field =
  ident :: nat
  descr :: field_spec

text \<open>The records a computation pass runs over, with the two attributes it depends on.\<close>

record partner =
  is_company :: bool
  category_id :: "int list"
  tab_visible :: "string \<rightharpoonup> bool"

text \<open>
  A tab object, as this module sees it: \<open>tab.tab_record.id\<close>, \<open>tab.tab_record.name\<close>,
  and what its methods \<open>get_fieldname()\<close>, \<open>get_visible_fieldname()\<close>, \<open>create_page()\<close>
  and \<open>compute_visibility(this)\<close> return. The class of these objects is not part of
  this module, so nothing is assumed about the values.
\<close>

record tab =
  tab_record_id :: int
  tab_record_name :: string
  get_fieldname :: string
  get_visible_fieldname :: string
  create_page :: xml
  compute_visibility :: "partner \<Rightarrow> bool"

text \<open>
  The state of the model class \<open>ResPartner\<close>: the class attribute
  \<open>_tab_modification_sequence\<close>, the field registry \<open>_fields\<close>, the dictionary
  \<open>_field_computed\<close>, and the identity the next constructed object gets.
\<close>

record res_partner =
  tab_modification_sequence :: int
  model_fields :: "string \<rightharpoonup> field"
  field_computed :: "field \<rightharpoonup> field list"
  next_ident :: nat

text \<open>The class as declared: \<open>_tab_modification_sequence = 0\<close>.\<close>

definition ResPartner :: "(string \<rightharpoonup> field) \<Rightarrow> (field \<rightharpoonup> field list) \<Rightarrow> nat \<Rightarrow> res_partner" where
  "ResPartner fs fc n =
     \<lparr>tab_modification_sequence = 0, model_fields = fs, field_computed = fc, next_ident = n\<rparr>"

type_synonym field_meta = "(string \<times> string) list"

text \<open>The dictionary \<open>super().fields_view_get(...)\<close> returns.\<close>

record view_result =
  arch :: xml
  result_fields :: "string \<rightharpoonup> field_meta"
  view_id :: int

text \<open>
  The collaborators reached through \<open>self.env\<close>:
  \<open>env["res.partner.tab.sequence"].get_sequence()\<close>,
  \<open>env["res.partner.tab"].get_tabs()\<close>, the truth value of
  \<open>env.context.get("check_view_ids")\<close>, and
  \<open>env["ir.ui.view"].postprocess_and_fields(model, view, view_id)\<close>. The first two
  and the last may raise.
\<close>

record env =
  sequence_model_get_sequence :: "error + int"
  tab_model_get_tabs :: "error + tab list"
  context_check_view_ids :: bool
  view_model_postprocess_and_fields ::
    "res_partner \<Rightarrow> xml \<Rightarrow> int \<Rightarrow> error + (xml \<times> (string \<rightharpoonup> field_meta))"

section \<open>Schema synchronisation\<close>

text \<open>
  \<open>BaseModel._add_field(name, field)\<close> of the framework registers the field under the
  name in \<open>_fields\<close>, replacing what was there (\<open>cls._fields[name] = field\<close>).
\<close>

definition BaseModel_add_field :: "string \<Rightarrow> field \<Rightarrow> res_partner \<Rightarrow> res_partner" where
  "BaseModel_add_field name f st = st\<lparr>model_fields := (model_fields st)(name \<mapsto> f)\<rparr>"

definition get_tabs :: "env \<Rightarrow> error + tab list" where
  "get_tabs e = tab_model_get_tabs e"

definition add_field :: "tab \<Rightarrow> res_partner \<Rightarrow> res_partner" where
  "add_field t st =
     (let visible_field = \<lparr>ident = next_ident st, descr = Boolean ''_compute_tabs_visibility''\<rparr>;
          st1 = BaseModel_add_field (get_visible_fieldname t) visible_field
                  (st\<lparr>next_ident := Suc (next_ident st)\<rparr>);
          st2 = (if field_computed st1 visible_field = None
                 then st1\<lparr>field_computed := (field_computed st1)(visible_field \<mapsto> [visible_field])\<rparr>
                 else st1);
          tab_field = \<lparr>ident = next_ident st2,
                       descr = One2many ''res.partner.relation.all'' ''this_partner_id''
                                 [(''tab_id'', ''='', tab_record_id t)]
                                 [(''active_test'', False)]
                                 (tab_record_name t)\<rparr>
      in BaseModel_add_field (get_fieldname t) tab_field
           (st2\<lparr>next_ident := Suc (next_ident st2)\<rparr>))"

text \<open>The dependencies declared on \<open>_compute_tabs_visibility\<close> by \<open>@api.depends\<close>.\<close>

definition compute_tabs_visibility_depends :: "string list" where
  "compute_tabs_visibility_depends = [''is_company'', ''category_id'']"

definition compute_tabs_visibility :: "env \<Rightarrow> partner list \<Rightarrow> error + partner list" where
  "compute_tabs_visibility e self =
     (case get_tabs e of
        Inl x \<Rightarrow> Inl x
      | Inr tabs \<Rightarrow>
          Inr (foldl (\<lambda>recs t.
                 map (\<lambda>this. this\<lparr>tab_visible :=
                        (tab_visible this)(get_visible_fieldname t \<mapsto> compute_visibility t this)\<rparr>) recs)
               self tabs))"

text \<open>
  \<open>_need_tab_update\<close>: reads the counter, and on a mismatch stores it in the class
  attribute (through \<open>_set_tab_modification_sequence\<close>) before it returns \<open>True\<close>.
\<close>

definition set_tab_modification_sequence :: "int \<Rightarrow> res_partner \<Rightarrow> res_partner" where
  "set_tab_modification_sequence s st = st\<lparr>tab_modification_sequence := s\<rparr>"

definition need_tab_update :: "env \<Rightarrow> res_partner \<Rightarrow> res_partner \<times> (error + bool)" where
  "need_tab_update e st =
     (case sequence_model_get_sequence e of
        Inl x \<Rightarrow> (st, Inl x)
      | Inr s \<Rightarrow>
          if s = tab_modification_sequence st then (st, Inr False)
          else (set_tab_modification_sequence s st, Inr True))"

text \<open>The loop of \<open>_update_tab_fields\<close> over the tabs.\<close>

fun update_tab_fields_loop :: "tab list \<Rightarrow> res_partner \<Rightarrow> res_partner" where
  "update_tab_fields_loop [] st = st"
| "update_tab_fields_loop (t # ts) st =
     update_tab_fields_loop ts
       (if model_fields st (get_fieldname t) = None then add_field t st else st)"

definition update_tab_fields :: "env \<Rightarrow> res_partner \<Rightarrow> res_partner \<times> (error + unit)" where
  "update_tab_fields e st =
     (case need_tab_update e st of
        (st1, Inl x) \<Rightarrow> (st1, Inl x)
      | (st1, Inr False) \<Rightarrow> (st1, Inr ())
      | (st1, Inr True) \<Rightarrow>
          (case get_tabs e of
             Inl x \<Rightarrow> (st1, Inl x)
           | Inr tabs \<Rightarrow> (update_tab_fields_loop tabs st1, Inr ())))"

text \<open>
  \<open>browse\<close>: \<open>super_browse\<close> is the framework's \<open>browse\<close>, which materialises the records
  from the class as it is when called.
\<close>

definition browse ::
  "env \<Rightarrow> (res_partner \<Rightarrow> 'a \<Rightarrow> 'r) \<Rightarrow> 'a \<Rightarrow> res_partner \<Rightarrow> res_partner \<times> (error + 'r)" where
  "browse e super_browse arg st =
     (case update_tab_fields e st of
        (st1, Inl x) \<Rightarrow> (st1, Inl x)
      | (st1, Inr _) \<Rightarrow> (st1, Inr (super_browse st1 arg)))"

section \<open>View composition\<close>

text \<open>
  \<open>view.xpath("//page[last()]")\<close>: the path is
  \<open>/descendant-or-self::node()/child::page[last()]\<close>, so it selects, under every
  node, the last of its children tagged \<open>page\<close>, and returns the selected elements in
  document order (an element before its descendants, these before its following
  siblings). \<open>xpath_page_last_below\<close> gives the ones strictly below an element. The
  root element is the only child of the document node, hence selected when it is a
  page, and then the first.
\<close>

fun xpath_page_last_below :: "xml \<Rightarrow> node list"
  and xpath_page_last_from :: "nat \<Rightarrow> xml list \<Rightarrow> node list" where
  "xpath_page_last_below (Element t a cs) = xpath_page_last_from 0 cs"
| "xpath_page_last_from i [] = []"
| "xpath_page_last_from i (c # cs) =
     (if tag c = ''page'' \<and> ''page'' \<notin> set (map tag cs) then [[i]] else [])
     @ map ((#) i) (xpath_page_last_below c)
     @ xpath_page_last_from (Suc i) cs"

definition xpath_page_last :: "xml \<Rightarrow> node list" where
  "xpath_page_last view =
     (if tag view = ''page'' then [[]] else []) @ xpath_page_last_below view"

text \<open>\<open>view.xpath('//field[@name="id"]')\<close>: the \<open>field\<close> elements named \<open>id\<close>, anywhere.\<close>

fun xpath_field_id :: "xml \<Rightarrow> xml list" where
  "xpath_field_id (Element t a cs) =
     (if t = ''field'' \<and> map_of a ''name'' = Some ''id'' then [Element t a cs] else [])
     @ concat (map xpath_field_id cs)"

text \<open>\<open>view.append(element)\<close>: a new last child of the root.\<close>

fun etree_append :: "xml \<Rightarrow> xml \<Rightarrow> xml" where
  "etree_append (Element t a cs) x = Element t a (cs @ [x])"

text \<open>
  \<open>node.addnext(element)\<close>: the element becomes the sibling right after the node.
  lxml refuses an element as a sibling of the root element with a \<open>TypeError\<close>.
  The node is a node of the tree (a reference cannot dangle).
\<close>

fun addnext :: "node \<Rightarrow> xml \<Rightarrow> xml \<Rightarrow> error + xml" where
  "addnext [] x (Element t a cs) = Inl TypeError"
| "addnext [i] x (Element t a cs) = Inr (Element t a (take (Suc i) cs @ x # drop (Suc i) cs))"
| "addnext (i # j # p) x (Element t a cs) =
     (case addnext (j # p) x (cs ! i) of
        Inl err \<Rightarrow> Inl err
      | Inr c \<Rightarrow> Inr (Element t a (cs[i := c])))"

text \<open>Where an element added by \<open>addnext\<close> at a node is: one sibling further.\<close>

definition next_sibling :: "node \<Rightarrow> node" where
  "next_sibling p = butlast p @ [Suc (last p)]"

definition add_invisible_extra_field :: "xml \<Rightarrow> string list \<Rightarrow> string \<Rightarrow> xml \<times> string list" where
  "add_invisible_extra_field view extra_fields fieldname =
     (etree_append view (Element ''field'' [(''name'', fieldname), (''invisible'', ''True'')] []),
      extra_fields @ [fieldname])"

text \<open>
  The loop of \<open>_add_tab_pages\<close> over the tabs. The view and the class are changed in
  place, so what was done before an exception stays done.
\<close>

fun add_tab_pages_loop ::
  "tab list \<Rightarrow> res_partner \<Rightarrow> xml \<Rightarrow> string list \<Rightarrow> node \<Rightarrow> res_partner \<times> xml \<times> (error + string list)" where
  "add_tab_pages_loop [] st view extra_fields last_page = (st, view, Inr extra_fields)"
| "add_tab_pages_loop (t # ts) st view extra_fields last_page =
     (let st1 = add_field t st;
          (view1, extra_fields1) = add_invisible_extra_field view extra_fields (get_visible_fieldname t);
          extra_fields2 = extra_fields1 @ [get_fieldname t];
          tab_page = create_page t
      in case addnext last_page tab_page view1 of
           Inl err \<Rightarrow> (st1, view1, Inl err)
         | Inr view2 \<Rightarrow> add_tab_pages_loop ts st1 view2 extra_fields2 (next_sibling last_page))"

definition add_tab_pages :: "env \<Rightarrow> xml \<Rightarrow> res_partner \<Rightarrow> res_partner \<times> xml \<times> (error + string list)" where
  "add_tab_pages e view st =
     (let last_page_nodes = xpath_page_last view
      in if last_page_nodes = [] then (st, view, Inr [])
         else
           let (view1, extra_fields) =
                 (if xpath_field_id view = [] then add_invisible_extra_field view [] ''id''
                  else (view, []));
               last_page = hd last_page_nodes
           in case get_tabs e of
                Inl err \<Rightarrow> (st, view1, Inl err)
              | Inr tabs \<Rightarrow> add_tab_pages_loop tabs st view1 extra_fields last_page)"

text \<open>
  The loop at the end of \<open>fields_view_get\<close>:
  \<open>result["fields"][fieldname] = original_fields[fieldname]\<close>.
\<close>

fun merge_extra_fields ::
  "string list \<Rightarrow> (string \<rightharpoonup> field_meta) \<Rightarrow> (string \<rightharpoonup> field_meta) \<Rightarrow> error + (string \<rightharpoonup> field_meta)" where
  "merge_extra_fields [] original_fields fs = Inr fs"
| "merge_extra_fields (fieldname # rest) original_fields fs =
     (case original_fields fieldname of
        None \<Rightarrow> Inl (KeyError fieldname)
      | Some m \<Rightarrow> merge_extra_fields rest original_fields (fs(fieldname \<mapsto> m)))"

text \<open>
  \<open>fields_view_get\<close>; \<open>result\<close> is what \<open>super().fields_view_get(...)\<close> returned, with
  the \<open>arch\<close> string given as the tree \<open>etree.fromstring\<close> parses it to.
\<close>

definition fields_view_get ::
  "env \<Rightarrow> view_result \<Rightarrow> string \<Rightarrow> res_partner \<Rightarrow> res_partner \<times> (error + view_result)" where
  "fields_view_get e result view_type st =
     (if view_type \<noteq> ''form'' \<or> context_check_view_ids e then (st, Inr result)
      else
        case add_tab_pages e (arch result) st of
          (st1, view, Inl err) \<Rightarrow> (st1, Inl err)
        | (st1, view, Inr extra_fields) \<Rightarrow>
            (case view_model_postprocess_and_fields e st1 view (view_id result) of
               Inl err \<Rightarrow> (st1, Inl err)
             | Inr (arch1, original_fields) \<Rightarrow>
                 (case merge_extra_fields extra_fields original_fields (result_fields result) of
                    Inl err \<Rightarrow> (st1, Inl err)
                  | Inr fs \<Rightarrow> (st1, Inr (result\<lparr>arch := arch1, result_fields := fs\<rparr>)))))"

section \<open>Notions used in the statements\<close>

text \<open>
  The sections of a layout: its \<open>page\<close> elements in document order, each given by its
  attributes (its label and conditions).
\<close>

fun sections :: "xml \<Rightarrow> (string \<times> string) list list" where
  "sections (Element t a cs) = (if t = ''page'' then [a] else []) @ concat (map sections cs)"


text \<open>A path that names a node of the tree.\<close>

fun is_node :: "node \<Rightarrow> xml \<Rightarrow> bool" where
  "is_node [] v = True"
| "is_node (i # p) (Element t a cs) = (i < length cs \<and> is_node p (cs ! i))"

text \<open>The tree with a list of elements put, in order, right after a node as its siblings.\<close>

fun insert_after :: "node \<Rightarrow> xml list \<Rightarrow> xml \<Rightarrow> xml" where
  "insert_after [] xs v = v"
| "insert_after [i] xs (Element t a cs) = Element t a (take (Suc i) cs @ xs @ drop (Suc i) cs)"
| "insert_after (i # j # p) xs (Element t a cs) =
     Element t a (cs[i := insert_after (j # p) xs (cs ! i)])"

text \<open>The tree with a list of elements added as the last children of the root.\<close>

fun append_children :: "xml \<Rightarrow> xml list \<Rightarrow> xml" where
  "append_children (Element t a cs) xs = Element t a (cs @ xs)"

text \<open>The hidden marker field that \<open>add_invisible_extra_field\<close> builds for a name.\<close>

definition invisible_field :: "string \<Rightarrow> xml" where
  "invisible_field n = Element ''field'' [(''name'', n), (''invisible'', ''True'')] []"

text \<open>The identity marker, registered when the layout has no field named \<open>id\<close>.\<close>

definition id_marker :: "xml \<Rightarrow> string list" where
  "id_marker view = (if xpath_field_id view = [] then [''id''] else [])"

section \<open>Concrete inputs\<close>

definition page_of :: "string \<Rightarrow> string \<Rightarrow> xml" where
  "page_of label fieldname =
     Element ''page'' [(''string'', label)] [Element ''field'' [(''name'', fieldname)] []]"

definition mk_tab :: "int \<Rightarrow> string \<Rightarrow> string \<Rightarrow> string \<Rightarrow> tab" where
  "mk_tab i label f v =
     \<lparr>tab_record_id = i, tab_record_name = label, get_fieldname = f,
      get_visible_fieldname = v, create_page = page_of label f,
      compute_visibility = is_company\<rparr>"

definition tab_A :: tab where "tab_A = mk_tab 1 ''A'' ''rel_1'' ''vis_1''"
definition tab_B :: tab where "tab_B = mk_tab 2 ''B'' ''rel_2'' ''vis_2''"

text \<open>Tab 1 after its label was changed.\<close>

definition tab_A_renamed :: tab where "tab_A_renamed = mk_tab 1 ''A2'' ''rel_1'' ''vis_1''"

text \<open>
  An environment whose view post-processing returns the tree as it is, with metadata
  for every field of the class.
\<close>

definition mk_env :: "error + int \<Rightarrow> error + tab list \<Rightarrow> bool \<Rightarrow> env" where
  "mk_env s ts c =
     \<lparr>sequence_model_get_sequence = s, tab_model_get_tabs = ts, context_check_view_ids = c,
      view_model_postprocess_and_fields =
        (\<lambda>st view vid. Inr (view, (\<lambda>n. if n = ''id'' \<or> model_fields st n \<noteq> None
                                       then Some [(''name'', n)] else None)))\<rparr>"

definition fresh_class :: res_partner where
  "fresh_class = ResPartner Map.empty Map.empty 0"

definition view_one_page :: xml where
  "view_one_page =
     Element ''form'' []
       [Element ''notebook'' [] [page_of ''General'' ''name'']]"


definition view_no_page :: xml where
  "view_no_page =
     Element ''form'' [] [Element ''group'' [] [Element ''field'' [(''name'', ''name'')] []]]"

definition base_result :: "xml \<Rightarrow> view_result" where
  "base_result view = \<lparr>arch = view, result_fields = Map.empty, view_id = 1\<rparr>"

text \<open>The class after a first synchronisation, at counter 4, with tab 1 alone.\<close>

definition class_with_A :: res_partner where
  "class_with_A = fst (update_tab_fields (mk_env (Inr 4) (Inr [tab_A]) False) fresh_class)"

section \<open>Reconciliation and the revision cache\<close>

lemma need_tab_update_same:
  "sequence_model_get_sequence e = Inr (tab_modification_sequence st) \<Longrightarrow>
   need_tab_update e st = (st, Inr False)"
  by (simp add: need_tab_update_def)

lemma add_field_sequence [simp]:
  "tab_modification_sequence (add_field t st) = tab_modification_sequence st"
  by (simp add: add_field_def BaseModel_add_field_def Let_def)

lemma update_tab_fields_loop_sequence [simp]:
  "tab_modification_sequence (update_tab_fields_loop ts st) = tab_modification_sequence st"
  by (induction ts arbitrary: st) simp_all

lemma update_tab_fields_same:
  "sequence_model_get_sequence e = Inr (tab_modification_sequence st) \<Longrightarrow>
   update_tab_fields e st = (st, Inr ())"
  by (simp add: update_tab_fields_def need_tab_update_same)

lemma update_tab_fields_sequence:
  "sequence_model_get_sequence e = Inr r \<Longrightarrow>
   tab_modification_sequence (fst (update_tab_fields e st)) = r"
  by (simp add: update_tab_fields_def need_tab_update_def set_tab_modification_sequence_def
      split: sum.splits)

text \<open>
  Claim C2. Whenever the source's revision counter equals the cached value,
  \<open>_update_tab_fields\<close> returns at once and leaves the class as it is, whatever the
  declaration sequence holds (even a new declaration, even a source that would fail
  on being asked for declarations). In particular, after any call that read the
  counter \<open>r\<close>, a second call under a counter still \<open>r\<close> changes nothing.
\<close>

theorem reconcile_same_revision_noop:
  assumes "sequence_model_get_sequence e = Inr r"
  shows "(tab_modification_sequence st = r \<longrightarrow> update_tab_fields e st = (st, Inr ())) \<and>
         (sequence_model_get_sequence e2 = Inr r \<longrightarrow>
            update_tab_fields e2 (fst (update_tab_fields e st))
              = (fst (update_tab_fields e st), Inr ()))"
proof -
  have "tab_modification_sequence (fst (update_tab_fields e st)) = r"
    using assms by (rule update_tab_fields_sequence)
  then show ?thesis
    using assms update_tab_fields_same [of e st]
      update_tab_fields_same [of e2 "fst (update_tab_fields e st)"]
    by simp
qed

theorem reconcile_same_revision_noop_witness:
  "sequence_model_get_sequence (mk_env (Inr 5) (Inr []) False) = Inr 5 \<and>
   tab_modification_sequence (set_tab_modification_sequence 5 fresh_class) = 5 \<and>
   sequence_model_get_sequence (mk_env (Inr 5) (Inr [tab_A]) False) = Inr 5 \<and>
   update_tab_fields (mk_env (Inr 5) (Inr [tab_A]) False)
       (set_tab_modification_sequence 5 fresh_class)
     = (set_tab_modification_sequence 5 fresh_class, Inr ()) \<and>
   update_tab_fields (mk_env (Inr 5) (Inr [tab_A]) False)
       (fst (update_tab_fields (mk_env (Inr 5) (Inr []) False) fresh_class))
     = (fst (update_tab_fields (mk_env (Inr 5) (Inr []) False) fresh_class), Inr ())"
  using reconcile_same_revision_noop [of "mk_env (Inr 5) (Inr [tab_A]) False" 5
      "set_tab_modification_sequence 5 fresh_class" "mk_env (Inr 5) (Inr [tab_A]) False"]
    reconcile_same_revision_noop [of "mk_env (Inr 5) (Inr []) False" 5
      fresh_class "mk_env (Inr 5) (Inr [tab_A]) False"]
  by (simp add: mk_env_def set_tab_modification_sequence_def)

text \<open>
  Claim C10. The class attribute starts as the integer 0, and it is one value for the
  whole class. Hence for a source whose counter reads 0 a class that never
  synchronised is taken as up to date: \<open>_update_tab_fields\<close> returns with no field
  attached, whatever declarations the source holds.
\<close>

theorem sentinel_zero_is_a_revision:
  "tab_modification_sequence (ResPartner fs fc n) = 0 \<and>
   (sequence_model_get_sequence e = Inr 0 \<longrightarrow>
      update_tab_fields e (ResPartner fs fc n) = (ResPartner fs fc n, Inr ()))"
  by (simp add: update_tab_fields_same ResPartner_def)

theorem sentinel_zero_is_a_revision_witness:
  "sequence_model_get_sequence (mk_env (Inr 0) (Inr [tab_A]) False) = Inr 0 \<and>
   update_tab_fields (mk_env (Inr 0) (Inr [tab_A]) False) fresh_class = (fresh_class, Inr ()) \<and>
   model_fields fresh_class ''rel_1'' = None"
  using sentinel_zero_is_a_revision [of Map.empty Map.empty 0 "mk_env (Inr 0) (Inr [tab_A]) False"]
  by (simp add: mk_env_def fresh_class_def ResPartner_def)

text \<open>
  Claim C3, as the code has it. \<open>_need_tab_update\<close> stores the counter in the class
  attribute as soon as it sees the mismatch, before the declarations are fetched and
  before any field is attached. So: when reading the counter fails, nothing is changed
  and the failure is returned; when the counter \<open>r\<close> was read, the cache holds \<open>r\<close>
  after the call whatever happened next; and when fetching the declarations then
  fails, the failure is returned with the cache already at \<open>r\<close> and the fields as
  they were.
\<close>

theorem reconcile_stores_revision_first:
  "(sequence_model_get_sequence e = Inl x \<longrightarrow> update_tab_fields e st = (st, Inl x)) \<and>
   (sequence_model_get_sequence e = Inr r \<longrightarrow>
      tab_modification_sequence (fst (update_tab_fields e st)) = r) \<and>
   (sequence_model_get_sequence e = Inr r \<and> r \<noteq> tab_modification_sequence st \<and>
    get_tabs e = Inl x \<longrightarrow>
      update_tab_fields e st = (set_tab_modification_sequence r st, Inl x)) \<and>
   (sequence_model_get_sequence e = Inr r \<and> r \<noteq> tab_modification_sequence st \<and>
    get_tabs e = Inr ts \<longrightarrow>
      update_tab_fields e st
        = (update_tab_fields_loop ts (set_tab_modification_sequence r st), Inr ()))"
  by (simp add: update_tab_fields_sequence)
     (simp add: update_tab_fields_def need_tab_update_def)

theorem reconcile_stores_revision_first_witness:
  "sequence_model_get_sequence (mk_env (Inr 5) (Inl (External ''tabs'')) False) = Inr 5 \<and>
   5 \<noteq> tab_modification_sequence fresh_class \<and>
   get_tabs (mk_env (Inr 5) (Inl (External ''tabs'')) False) = Inl (External ''tabs'') \<and>
   update_tab_fields (mk_env (Inr 5) (Inl (External ''tabs'')) False) fresh_class
     = (set_tab_modification_sequence 5 fresh_class, Inl (External ''tabs'')) \<and>
   sequence_model_get_sequence (mk_env (Inl (External ''sequence'')) (Inr [tab_A]) False)
     = Inl (External ''sequence'') \<and>
   update_tab_fields (mk_env (Inl (External ''sequence'')) (Inr [tab_A]) False) fresh_class
     = (fresh_class, Inl (External ''sequence'')) \<and>
   get_tabs (mk_env (Inr 5) (Inr [tab_A]) False) = Inr [tab_A] \<and>
   update_tab_fields (mk_env (Inr 5) (Inr [tab_A]) False) fresh_class
     = (update_tab_fields_loop [tab_A] (set_tab_modification_sequence 5 fresh_class), Inr ()) \<and>
   tab_modification_sequence
     (fst (update_tab_fields (mk_env (Inr 5) (Inr [tab_A]) False) fresh_class)) = 5"
  using reconcile_stores_revision_first [of "mk_env (Inr 5) (Inl (External ''tabs'')) False"
      "External ''tabs''" fresh_class 5 "[]"]
    reconcile_stores_revision_first [of "mk_env (Inl (External ''sequence'')) (Inr [tab_A]) False"
      "External ''sequence''" fresh_class 5 "[]"]
    reconcile_stores_revision_first [of "mk_env (Inr 5) (Inr [tab_A]) False"
      "External ''tabs''" fresh_class 5 "[tab_A]"]
  by (simp add: mk_env_def get_tabs_def fresh_class_def ResPartner_def
      set_tab_modification_sequence_def)

text \<open>
  The claim as the specification words it fails: with the cache at 0, a counter
  reading 5 and a source that fails when asked for its declarations, the call
  fails and yet the cache has moved to 5.
\<close>

theorem reconcile_commits_before_failure:
  "snd (update_tab_fields (mk_env (Inr 5) (Inl (External ''tabs'')) False) fresh_class)
     = Inl (External ''tabs'') \<and>
   tab_modification_sequence fresh_class = 0 \<and>
   tab_modification_sequence
     (fst (update_tab_fields (mk_env (Inr 5) (Inl (External ''tabs'')) False) fresh_class)) = 5"
  by (simp add: update_tab_fields_def need_tab_update_def set_tab_modification_sequence_def
      mk_env_def get_tabs_def fresh_class_def ResPartner_def)

text \<open>
  Claim C9. \<open>browse\<close> runs \<open>_update_tab_fields\<close> first: the class it leaves is the one
  reconciliation leaves; when reconciliation fails, so does \<open>browse\<close>, with no record
  materialised; otherwise the records are the framework's \<open>browse\<close> on the reconciled
  class, whose cached value is the counter the source now reads.
\<close>

theorem browse_reconciles_first:
  assumes "browse e super_browse arg st = (st1, res)"
  shows "st1 = fst (update_tab_fields e st) \<and>
         (case res of
            Inl x \<Rightarrow> snd (update_tab_fields e st) = Inl x
          | Inr recs \<Rightarrow>
              snd (update_tab_fields e st) = Inr () \<and> recs = super_browse st1 arg \<and>
              sequence_model_get_sequence e = Inr (tab_modification_sequence st1))"
proof (cases "update_tab_fields e st")
  case (Pair st2 out)
  show ?thesis
  proof (cases out)
    case (Inl x)
    with Pair assms show ?thesis by (auto simp: browse_def)
  next
    case (Inr u)
    with Pair obtain r where r: "sequence_model_get_sequence e = Inr r"
      by (cases "sequence_model_get_sequence e")
         (auto simp: update_tab_fields_def need_tab_update_def)
    from update_tab_fields_sequence [OF r, of st] Pair
    have "tab_modification_sequence st2 = r" by simp
    with Pair Inr r assms show ?thesis by (auto simp: browse_def)
  qed
qed

theorem browse_reconciles_first_witness:
  "browse (mk_env (Inr 5) (Inr [tab_A]) False) (\<lambda>st ids. (ids, model_fields st ''rel_1'' \<noteq> None))
       [7::int] fresh_class
     = (fst (update_tab_fields (mk_env (Inr 5) (Inr [tab_A]) False) fresh_class), Inr ([7], True)) \<and>
   sequence_model_get_sequence (mk_env (Inr 5) (Inr [tab_A]) False)
     = Inr (tab_modification_sequence
              (fst (update_tab_fields (mk_env (Inr 5) (Inr [tab_A]) False) fresh_class)))"
  using browse_reconciles_first [of "mk_env (Inr 5) (Inr [tab_A]) False"
      "\<lambda>st ids. (ids, model_fields st ''rel_1'' \<noteq> None)" "[7::int]" fresh_class
      "fst (update_tab_fields (mk_env (Inr 5) (Inr [tab_A]) False) fresh_class)"
      "Inr ([7], True)"]
  by (simp add: browse_def update_tab_fields_def need_tab_update_def
      set_tab_modification_sequence_def mk_env_def get_tabs_def fresh_class_def ResPartner_def
      add_field_def BaseModel_add_field_def tab_A_def mk_tab_def Let_def)

section \<open>The nodes selected in a layout\<close>

lemma sections_page: "tag c = ''page'' \<Longrightarrow> sections c \<noteq> []"
  by (cases c) simp

lemma no_sections_no_page:
  "sections v = [] \<Longrightarrow> xpath_page_last_below v = []"
  "(\<forall>c\<in>set cs. sections c = []) \<Longrightarrow> xpath_page_last_from i cs = []"
proof (induction v and i cs rule: xpath_page_last_below_xpath_page_last_from.induct)
  case (1 t a cs)
  then show ?case by (simp split: if_splits)
next
  case (2 i)
  then show ?case by simp
next
  case (3 i c cs)
  then show ?case using sections_page [of c] by auto
qed

lemma no_page_no_sections:
  "xpath_page_last_below v = [] \<Longrightarrow> concat (map sections (children v)) = []"
  "xpath_page_last_from i cs = [] \<Longrightarrow> concat (map sections cs) = []"
proof (induction v and i cs rule: xpath_page_last_below_xpath_page_last_from.induct)
  case (1 t a cs)
  then show ?case by simp
next
  case (2 i)
  then show ?case by simp
next
  case (3 i c cs)
  from 3 have a: "xpath_page_last_below c = []" and b: "xpath_page_last_from (Suc i) cs = []"
    and g: "\<not> (tag c = ''page'' \<and> ''page'' \<notin> set (map tag cs))"
    by (auto split: if_splits)
  from 3 b have rest: "concat (map sections cs) = []" by simp
  have "''page'' \<notin> set (map tag cs)"
  proof
    assume "''page'' \<in> set (map tag cs)"
    then obtain d where "d \<in> set cs" "tag d = ''page''" by auto
    with rest sections_page [of d] show False by auto
  qed
  with g have "tag c \<noteq> ''page''" by simp
  moreover from 3 a have "concat (map sections (children c)) = []" by simp
  ultimately have "sections c = []" by (cases c) simp
  with rest show ?case by simp
qed

lemma xpath_page_last_empty_iff: "xpath_page_last v = [] \<longleftrightarrow> sections v = []"
proof
  assume "xpath_page_last v = []"
  then have "tag v \<noteq> ''page''" "xpath_page_last_below v = []"
    by (auto simp: xpath_page_last_def split: if_splits)
  then show "sections v = []" using no_page_no_sections(1) [of v] by (cases v) simp
next
  assume s: "sections v = []"
  then have "tag v \<noteq> ''page''" using sections_page by blast
  with s show "xpath_page_last v = []" by (simp add: xpath_page_last_def no_sections_no_page(1))
qed


lemma xpath_nodes:
  "p \<in> set (xpath_page_last_below v) \<Longrightarrow> p \<noteq> [] \<and> is_node p v"
  "p \<in> set (xpath_page_last_from i cs) \<Longrightarrow>
     \<exists>k q. p = (i + k) # q \<and> k < length cs \<and> is_node q (cs ! k)"
proof (induction v and i cs arbitrary: p and p rule: xpath_page_last_below_xpath_page_last_from.induct)
  case (1 t a cs)
  then have "p \<in> set (xpath_page_last_from 0 cs)" by simp
  from 1(1) [OF this] show ?case by auto
next
  case (2 i)
  then show ?case by simp
next
  case (3 i c cs)
  from 3(3) consider "p = [i]" | q where "p = i # q" "q \<in> set (xpath_page_last_below c)"
    | "p \<in> set (xpath_page_last_from (Suc i) cs)"
    by (auto split: if_splits)
  then show ?case
  proof cases
    case 1
    then have "p = (i + 0) # [] \<and> 0 < length (c # cs) \<and> is_node [] ((c # cs) ! 0)" by simp
    then show ?thesis by blast
  next
    case 2
    from 3(1) [OF 2(2)] have "is_node q c" by simp
    with 2 have "p = (i + 0) # q \<and> 0 < length (c # cs) \<and> is_node q ((c # cs) ! 0)" by simp
    then show ?thesis by blast
  next
    case 3
    from "3.IH"(2) [OF 3] obtain k q where "p = (Suc i + k) # q" "k < length cs" "is_node q (cs ! k)"
      by blast
    then have "p = (i + Suc k) # q \<and> Suc k < length (c # cs) \<and> is_node q ((c # cs) ! Suc k)" by simp
    then show ?thesis by blast
  qed
qed

lemma anchor_is_node:
  assumes "xpath_page_last v \<noteq> []" "tag v \<noteq> ''page''"
  shows "hd (xpath_page_last v) \<noteq> [] \<and> is_node (hd (xpath_page_last v)) v"
proof -
  from assms have "xpath_page_last v = xpath_page_last_below v" "xpath_page_last_below v \<noteq> []"
    by (auto simp: xpath_page_last_def)
  then have "hd (xpath_page_last v) \<in> set (xpath_page_last_below v)" by simp
  then show ?thesis by (rule xpath_nodes(1))
qed



lemma addnext_insert_after:
  "is_node p v \<Longrightarrow> p \<noteq> [] \<Longrightarrow> addnext p x v = Inr (insert_after p [x] v)"
proof (induction p x v rule: addnext.induct)
  case (1 x t a cs)
  then show ?case by simp
next
  case (2 i x t a cs)
  then show ?case by simp
next
  case (3 i j p x t a cs)
  then show ?case by simp
qed

lemma is_node_next_sibling:
  "is_node p v \<Longrightarrow> p \<noteq> [] \<Longrightarrow> is_node (next_sibling p) (insert_after p [x] v)"
proof (induction p "[x]" v rule: insert_after.induct)
  case (1 v)
  then show ?case by simp
next
  case (2 i t a cs)
  then show ?case by (simp add: next_sibling_def)
next
  case (3 i j p t a cs)
  then have "is_node (next_sibling (j # p)) (insert_after (j # p) [x] (cs ! i))" by simp
  moreover have "next_sibling (i # j # p) = i # next_sibling (j # p)"
    by (simp add: next_sibling_def)
  ultimately show ?case using 3 by simp
qed

lemma insert_after_next_sibling:
  "is_node p v \<Longrightarrow> p \<noteq> [] \<Longrightarrow>
   insert_after (next_sibling p) xs (insert_after p [x] v) = insert_after p (x # xs) v"
proof (induction p "[x]" v rule: insert_after.induct)
  case (1 v)
  then show ?case by simp
next
  case (2 i t a cs)
  then have i: "i < length cs" by simp
  then have "take (Suc (Suc i)) (take (Suc i) cs @ x # drop (Suc i) cs) = take (Suc i) cs @ [x]"
    by (simp add: min_absorb2)
  moreover from i have "drop (Suc (Suc i)) (take (Suc i) cs @ x # drop (Suc i) cs) = drop (Suc i) cs"
    by (simp add: min_absorb2)
  ultimately show ?case by (simp add: next_sibling_def)
next
  case (3 i j p t a cs)
  have n: "next_sibling (i # j # p) = i # next_sibling (j # p)"
    by (simp add: next_sibling_def)
  have "next_sibling (j # p) \<noteq> []" by (simp add: next_sibling_def)
  then obtain k q where kq: "next_sibling (j # p) = k # q" by (cases "next_sibling (j # p)") auto
  from 3 have "insert_after (next_sibling (j # p)) xs (insert_after (j # p) [x] (cs ! i))
      = insert_after (j # p) (x # xs) (cs ! i)" by simp
  with 3(2) show ?case by (simp add: n kq)
qed

lemma append_children_append [simp]:
  "append_children (append_children v xs) ys = append_children v (xs @ ys)"
  by (cases v) simp

lemma etree_append_conv: "etree_append v x = append_children v [x]"
  by (cases v) simp

lemma is_node_append_children:
  "is_node p v \<Longrightarrow> is_node p (append_children v fs)"
proof (cases v)
  case (Element t a cs)
  assume "is_node p v"
  with Element show ?thesis by (cases p) (auto simp: nth_append)
qed

lemma insert_after_append_children:
  "is_node p v \<Longrightarrow> p \<noteq> [] \<Longrightarrow>
   insert_after p xs (append_children v fs) = append_children (insert_after p xs v) fs"
proof (cases v)
  case (Element t a cs)
  assume a: "is_node p v" "p \<noteq> []"
  then obtain i q where p: "p = i # q" by (cases p) auto
  with a Element have i: "i < length cs" by simp
  show ?thesis
  proof (cases q)
    case Nil
    with p i Element show ?thesis by simp
  next
    case (Cons j r)
    with p i Element show ?thesis by (simp add: nth_append list_update_append)
  qed
qed

lemma insert_after_Nil: "insert_after p [] v = v"
  by (induction p "[] :: xml list" v rule: insert_after.induct) simp_all

lemma append_children_Nil [simp]: "append_children v [] = v"
  by (cases v) simp

lemma add_tab_pages_loop_eq:
  "is_node p v \<Longrightarrow> p \<noteq> [] \<Longrightarrow>
   add_tab_pages_loop ts st v extra p =
     (foldl (\<lambda>s t. add_field t s) st ts,
      insert_after p (map create_page ts)
        (append_children v (map (\<lambda>t. invisible_field (get_visible_fieldname t)) ts)),
      Inr (extra @ concat (map (\<lambda>t. [get_visible_fieldname t, get_fieldname t]) ts)))"
proof (induction ts arbitrary: st v extra p)
  case Nil
  then show ?case by (simp add: insert_after_Nil)
next
  case (Cons t ts)
  let ?f = "invisible_field (get_visible_fieldname t)"
  let ?fs = "map (\<lambda>t. invisible_field (get_visible_fieldname t)) ts"
  let ?v1 = "append_children v [?f]"
  let ?v2 = "insert_after p [create_page t] ?v1"
  have n1: "is_node p ?v1" using Cons.prems by (simp add: is_node_append_children)
  then have a: "addnext p (create_page t) ?v1 = Inr ?v2"
    using Cons.prems by (simp add: addnext_insert_after)
  have n2: "is_node (next_sibling p) ?v2" using n1 Cons.prems by (simp add: is_node_next_sibling)
  have ne: "next_sibling p \<noteq> []" by (simp add: next_sibling_def)
  have "append_children ?v2 ?fs = insert_after p [create_page t] (append_children v (?f # ?fs))"
    using n1 Cons.prems by (simp add: insert_after_append_children [symmetric])
  moreover have "is_node p (append_children v (?f # ?fs))"
    using Cons.prems by (simp add: is_node_append_children)
  ultimately have v: "insert_after (next_sibling p) (map create_page ts) (append_children ?v2 ?fs)
     = insert_after p (create_page t # map create_page ts) (append_children v (?f # ?fs))"
    using Cons.prems by (simp add: insert_after_next_sibling)
  show ?case
    using Cons.IH [OF n2 ne] a v
    by (simp add: add_invisible_extra_field_def etree_append_conv invisible_field_def [symmetric])
qed




lemma sections_invisible_field [simp]: "sections (invisible_field n) = []"
  by (simp add: invisible_field_def)




section \<open>View composition\<close>

lemma add_tab_pages_eq:
  assumes "sections view \<noteq> []" "tag view \<noteq> ''page''" "get_tabs e = Inr tabs"
  shows "add_tab_pages e view st =
     (foldl (\<lambda>s t. add_field t s) st tabs,
      insert_after (hd (xpath_page_last view)) (map create_page tabs)
        (append_children view
           (map invisible_field (id_marker view @ map get_visible_fieldname tabs))),
      Inr (id_marker view @ concat (map (\<lambda>t. [get_visible_fieldname t, get_fieldname t]) tabs)))"
proof -
  let ?p = "hd (xpath_page_last view)"
  let ?v1 = "append_children view (map invisible_field (id_marker view))"
  from assms have ne: "xpath_page_last view \<noteq> []" by (simp add: xpath_page_last_empty_iff)
  with assms have p: "?p \<noteq> []" "is_node ?p view" using anchor_is_node by blast+
  then have n1: "is_node ?p ?v1" by (simp add: is_node_append_children)
  have "add_tab_pages e view st = add_tab_pages_loop tabs st ?v1 (id_marker view) ?p"
    using ne assms(3)
    by (simp add: add_tab_pages_def id_marker_def add_invisible_extra_field_def
        etree_append_conv invisible_field_def)
  then show ?thesis
    using add_tab_pages_loop_eq [OF n1 p(1)] by (simp add: comp_def)
qed

text \<open>
  Claim C7. On a layout with no section at all, \<open>_add_tab_pages\<close> returns before it
  does anything: the layout and the class are as they were (no marker field, no field
  attached) and the list of extra fields is empty, even when the source would fail.
\<close>

theorem no_page_layout_unchanged:
  "sections view = [] \<Longrightarrow> add_tab_pages e view st = (st, view, Inr [])"
  by (simp add: add_tab_pages_def xpath_page_last_empty_iff)

theorem no_page_layout_unchanged_witness:
  "sections view_no_page = [] \<and>
   add_tab_pages (mk_env (Inr 5) (Inr [tab_A]) False) view_no_page fresh_class
     = (fresh_class, view_no_page, Inr [])"
  using no_page_layout_unchanged [of view_no_page "mk_env (Inr 5) (Inr [tab_A]) False" fresh_class]
  by (simp add: view_no_page_def)

text \<open>
  Claim C8. With \<open>check_view_ids\<close> set in the context, \<open>fields_view_get\<close> returns what
  the base implementation returned, for every view type: the layout, the metadata and
  the class are untouched.
\<close>

theorem validation_mode_returns_base:
  "context_check_view_ids e \<Longrightarrow> fields_view_get e result view_type st = (st, Inr result)"
  by (simp add: fields_view_get_def)

theorem validation_mode_returns_base_witness:
  "context_check_view_ids (mk_env (Inr 5) (Inr [tab_A]) True) \<and>
   fields_view_get (mk_env (Inr 5) (Inr [tab_A]) True) (base_result view_one_page) ''form''
       fresh_class
     = (fresh_class, Inr (base_result view_one_page))"
  using validation_mode_returns_base [of "mk_env (Inr 5) (Inr [tab_A]) True"
      "base_result view_one_page" "''form''" fresh_class]
  by (simp add: mk_env_def)




section \<open>The field pair of a declaration\<close>

lemma add_field_fields:
  "model_fields (add_field t st) =
     (model_fields st)
       (get_visible_fieldname t \<mapsto>
          \<lparr>ident = next_ident st, descr = Boolean ''_compute_tabs_visibility''\<rparr>,
        get_fieldname t \<mapsto>
          \<lparr>ident = Suc (next_ident st),
           descr = One2many ''res.partner.relation.all'' ''this_partner_id''
                     [(''tab_id'', ''='', tab_record_id t)] [(''active_test'', False)]
                     (tab_record_name t)\<rparr>)"
  by (simp add: add_field_def BaseModel_add_field_def Let_def)

lemma update_tab_fields_loop_present:
  "model_fields st n \<noteq> None \<Longrightarrow> model_fields (update_tab_fields_loop ts st) n \<noteq> None"
  by (induction ts arbitrary: st) (simp_all add: add_field_fields)

lemma update_tab_fields_loop_keeps:
  "(\<forall>u\<in>set ts. get_visible_fieldname u = n \<or> get_fieldname u = n \<longrightarrow>
       model_fields st (get_fieldname u) \<noteq> None) \<Longrightarrow>
   model_fields (update_tab_fields_loop ts st) n = model_fields st n"
proof (induction ts arbitrary: st)
  case Nil
  then show ?case by simp
next
  case (Cons t ts)
  let ?st1 = "if model_fields st (get_fieldname t) = None then add_field t st else st"
  have keep: "model_fields ?st1 n = model_fields st n"
    using Cons.prems by (auto simp: add_field_fields)
  have mono: "model_fields ?st1 m \<noteq> None" if "model_fields st m \<noteq> None" for m
    using that by (simp add: add_field_fields)
  have "\<forall>u\<in>set ts. get_visible_fieldname u = n \<or> get_fieldname u = n \<longrightarrow>
          model_fields ?st1 (get_fieldname u) \<noteq> None"
    using Cons.prems mono by auto
  from Cons.IH [OF this] keep show ?case by simp
qed

lemma update_tab_fields_loop_all_present:
  "(\<forall>u\<in>set ts. model_fields st (get_fieldname u) \<noteq> None) \<Longrightarrow>
   update_tab_fields_loop ts st = st"
  by (induction ts arbitrary: st) auto

lemma update_tab_fields_loop_attaches:
  "u \<in> set ts \<Longrightarrow> model_fields (update_tab_fields_loop ts st) (get_fieldname u) \<noteq> None"
proof (induction ts arbitrary: st)
  case Nil
  then show ?case by simp
next
  case (Cons t ts)
  show ?case
  proof (cases "u = t")
    case True
    have "model_fields (if model_fields st (get_fieldname t) = None then add_field t st else st)
            (get_fieldname t) \<noteq> None"
      by (simp add: add_field_fields)
    then show ?thesis using True by (simp add: update_tab_fields_loop_present)
  next
    case False
    with Cons show ?thesis by simp
  qed
qed

lemma update_tab_fields_fields:
  "get_tabs e = Inr ts \<Longrightarrow>
   model_fields (fst (update_tab_fields e st)) = model_fields st \<or>
   model_fields (fst (update_tab_fields e st))
     = model_fields (update_tab_fields_loop ts (set_tab_modification_sequence
         (tab_modification_sequence (fst (update_tab_fields e st))) st))"
  by (auto simp: update_tab_fields_def need_tab_update_def set_tab_modification_sequence_def
      split: sum.splits)

text \<open>
  Claim C1, as the code has it. Synchronisation skips a declaration whose relation
  field name is already registered: for such a declaration, when no other
  declaration's derived names collide with its own, both fields of its pair are after
  \<open>_update_tab_fields\<close> what they were before; and running the loop a second time
  changes nothing. Composition does not check: \<open>add_field\<close> registers a newly built
  relation field under the declaration's name whatever was registered there. In both
  cases the registry is keyed by name, and \<open>add_field\<close> adds no name but the
  declaration's two.
\<close>

theorem sync_keeps_compose_replaces:
  assumes "get_tabs e = Inr ts" and "t \<in> set ts"
    and "model_fields st (get_fieldname t) \<noteq> None"
    and "\<forall>u\<in>set ts. get_visible_fieldname u \<noteq> get_fieldname t \<and>
                      get_fieldname u \<noteq> get_visible_fieldname t"
    and "\<forall>u\<in>set ts. get_visible_fieldname u = get_visible_fieldname t \<longrightarrow>
                      get_fieldname u = get_fieldname t"
  shows "model_fields (fst (update_tab_fields e st)) (get_fieldname t)
           = model_fields st (get_fieldname t) \<and>
         model_fields (fst (update_tab_fields e st)) (get_visible_fieldname t)
           = model_fields st (get_visible_fieldname t) \<and>
         update_tab_fields_loop ts (update_tab_fields_loop ts st) = update_tab_fields_loop ts st \<and>
         model_fields (add_field t st) (get_fieldname t)
           = Some \<lparr>ident = Suc (next_ident st),
                   descr = One2many ''res.partner.relation.all'' ''this_partner_id''
                             [(''tab_id'', ''='', tab_record_id t)] [(''active_test'', False)]
                             (tab_record_name t)\<rparr> \<and>
         dom (model_fields (add_field t st))
           = insert (get_fieldname t) (insert (get_visible_fieldname t) (dom (model_fields st)))"
proof -
  have k: "model_fields (update_tab_fields_loop ts s) n = model_fields s n"
    if "model_fields s = model_fields st" "n = get_fieldname t \<or> n = get_visible_fieldname t"
    for s n
  proof (rule update_tab_fields_loop_keeps, intro ballI impI)
    fix u assume u: "u \<in> set ts" "get_visible_fieldname u = n \<or> get_fieldname u = n"
    with assms(4,5) that(2) have "get_fieldname u = get_fieldname t" by auto
    with assms(3) that(1) show "model_fields s (get_fieldname u) \<noteq> None" by simp
  qed
  have a: "model_fields (fst (update_tab_fields e st)) n = model_fields st n"
    if "n = get_fieldname t \<or> n = get_visible_fieldname t" for n
    using update_tab_fields_fields [OF assms(1), of st] k [OF _ that]
    by (auto simp: set_tab_modification_sequence_def)
  have b: "update_tab_fields_loop ts (update_tab_fields_loop ts st) = update_tab_fields_loop ts st"
    by (rule update_tab_fields_loop_all_present) (simp add: update_tab_fields_loop_attaches)
  show ?thesis using a b by (auto simp: add_field_fields)
qed


theorem sync_keeps_compose_replaces_witness:
  "get_tabs (mk_env (Inr 5) (Inr [tab_A, tab_B]) False) = Inr [tab_A, tab_B] \<and>
   tab_A \<in> set [tab_A, tab_B] \<and>
   model_fields class_with_A (get_fieldname tab_A) \<noteq> None \<and>
   get_visible_fieldname tab_A \<noteq> get_fieldname tab_A \<and>
   get_visible_fieldname tab_B \<noteq> get_fieldname tab_A \<and>
   get_fieldname tab_B \<noteq> get_visible_fieldname tab_A \<and>
   get_visible_fieldname tab_B \<noteq> get_visible_fieldname tab_A \<and>
   model_fields (fst (update_tab_fields (mk_env (Inr 5) (Inr [tab_A, tab_B]) False) class_with_A))
       ''rel_1'' = model_fields class_with_A ''rel_1'' \<and>
   model_fields (fst (update_tab_fields (mk_env (Inr 5) (Inr [tab_A, tab_B]) False) class_with_A))
       ''vis_1'' = model_fields class_with_A ''vis_1'' \<and>
   model_fields (fst (update_tab_fields (mk_env (Inr 5) (Inr [tab_A, tab_B]) False) class_with_A))
       ''rel_2'' \<noteq> None"
  using sync_keeps_compose_replaces [of "mk_env (Inr 5) (Inr [tab_A, tab_B]) False"
      "[tab_A, tab_B]" tab_A class_with_A]
  by (simp add: update_tab_fields_def need_tab_update_def set_tab_modification_sequence_def
      mk_env_def get_tabs_def fresh_class_def ResPartner_def
      add_field_def BaseModel_add_field_def tab_A_def tab_B_def mk_tab_def Let_def class_with_A_def)

text \<open>
  The claim as the specification words it fails for composition: with the pair of
  tab 1 registered by a synchronisation, composing a layout registers a new relation
  field object under the same name, and, once the label of the tab has changed, one
  with a different label.
\<close>

theorem compose_replaces_present_fields:
  "model_fields class_with_A ''rel_1''
     = Some \<lparr>ident = 1,
             descr = One2many ''res.partner.relation.all'' ''this_partner_id''
                       [(''tab_id'', ''='', 1)] [(''active_test'', False)] ''A''\<rparr> \<and>
   model_fields (fst (add_tab_pages (mk_env (Inr 4) (Inr [tab_A]) False) view_one_page class_with_A))
       ''rel_1''
     = Some \<lparr>ident = 3,
             descr = One2many ''res.partner.relation.all'' ''this_partner_id''
                       [(''tab_id'', ''='', 1)] [(''active_test'', False)] ''A''\<rparr> \<and>
   model_fields (fst (add_tab_pages (mk_env (Inr 4) (Inr [tab_A_renamed]) False) view_one_page
                        class_with_A))
       ''rel_1''
     = Some \<lparr>ident = 3,
             descr = One2many ''res.partner.relation.all'' ''this_partner_id''
                       [(''tab_id'', ''='', 1)] [(''active_test'', False)] ''A2''\<rparr>"
  by (simp add: add_tab_pages_def xpath_page_last_def add_invisible_extra_field_def
      next_sibling_def view_one_page_def page_of_def tab_A_renamed_def
      update_tab_fields_def need_tab_update_def set_tab_modification_sequence_def
      mk_env_def get_tabs_def fresh_class_def ResPartner_def
      add_field_def BaseModel_add_field_def tab_A_def mk_tab_def Let_def class_with_A_def)

text \<open>
  Claim C6. \<open>add_field\<close> registers, under the declaration's relation field name, a
  one-to-many field to \<open>res.partner.relation.all\<close> with the domain
  \<open>tab_id = \<close> the declaration's id and the context \<open>active_test = False\<close>, and,
  under its visibility field name (when the two names differ), a boolean field
  computed by \<open>_compute_tabs_visibility\<close>, which is given no other argument. That
  method declares the dependencies \<open>is_company\<close> and \<open>category_id\<close>, and assigns to
  the visibility field of each record what the declaration's \<open>compute_visibility\<close>
  returns for it.
\<close>

theorem derived_field_pair:
  "map_option descr (model_fields (add_field t st) (get_fieldname t))
     = Some (One2many ''res.partner.relation.all'' ''this_partner_id''
               [(''tab_id'', ''='', tab_record_id t)] [(''active_test'', False)]
               (tab_record_name t)) \<and>
   (get_visible_fieldname t \<noteq> get_fieldname t \<longrightarrow>
      map_option descr (model_fields (add_field t st) (get_visible_fieldname t))
        = Some (Boolean ''_compute_tabs_visibility'')) \<and>
   compute_tabs_visibility_depends = [''is_company'', ''category_id''] \<and>
   (get_tabs e = Inr [t] \<longrightarrow>
      compute_tabs_visibility e [this]
        = Inr [this\<lparr>tab_visible :=
                 (tab_visible this)(get_visible_fieldname t \<mapsto> compute_visibility t this)\<rparr>])"
  by (simp add: add_field_fields compute_tabs_visibility_depends_def compute_tabs_visibility_def)

theorem derived_field_pair_witness:
  "get_visible_fieldname tab_A \<noteq> get_fieldname tab_A \<and>
   map_option descr (model_fields (add_field tab_A fresh_class) ''rel_1'')
     = Some (One2many ''res.partner.relation.all'' ''this_partner_id''
               [(''tab_id'', ''='', 1)] [(''active_test'', False)] ''A'') \<and>
   map_option descr (model_fields (add_field tab_A fresh_class) ''vis_1'')
     = Some (Boolean ''_compute_tabs_visibility'') \<and>
   get_tabs (mk_env (Inr 5) (Inr [tab_A]) False) = Inr [tab_A] \<and>
   compute_tabs_visibility (mk_env (Inr 5) (Inr [tab_A]) False)
       [\<lparr>is_company = False, category_id = [], tab_visible = Map.empty\<rparr>]
     = Inr [\<lparr>is_company = False, category_id = [], tab_visible = [''vis_1'' \<mapsto> False]\<rparr>]"
  using derived_field_pair [of tab_A fresh_class "mk_env (Inr 5) (Inr [tab_A]) False"
      "\<lparr>is_company = False, category_id = [], tab_visible = Map.empty\<rparr>"]
  by (simp add: mk_env_def get_tabs_def tab_A_def mk_tab_def)

section \<open>The layout fetch\<close>

lemma add_tab_pages_loop_sequence:
  "tab_modification_sequence (fst (add_tab_pages_loop ts st v xs p)) = tab_modification_sequence st"
  by (induction ts arbitrary: st v xs p)
     (simp_all add: add_invisible_extra_field_def Let_def split: sum.splits)

lemma add_tab_pages_unfold:
  "xpath_page_last view \<noteq> [] \<Longrightarrow>
   add_tab_pages e view st =
     (case get_tabs e of
        Inl err \<Rightarrow> (st, append_children view (map invisible_field (id_marker view)), Inl err)
      | Inr tabs \<Rightarrow>
          add_tab_pages_loop tabs st (append_children view (map invisible_field (id_marker view)))
            (id_marker view) (hd (xpath_page_last view)))"
  by (simp add: add_tab_pages_def id_marker_def add_invisible_extra_field_def
      etree_append_conv invisible_field_def split: sum.splits)

lemma add_tab_pages_sequence:
  "tab_modification_sequence (fst (add_tab_pages e v st)) = tab_modification_sequence st"
proof (cases "xpath_page_last v = []")
  case True
  then show ?thesis by (simp add: add_tab_pages_def)
next
  case False
  then show ?thesis
    by (cases "get_tabs e") (simp_all add: add_tab_pages_unfold add_tab_pages_loop_sequence)
qed


lemma merge_extra_fields_result:
  "merge_extra_fields xs original_fields fs = Inr fs1 \<Longrightarrow>
   (\<forall>n\<in>set xs. fs1 n = original_fields n \<and> original_fields n \<noteq> None) \<and>
   (\<forall>n. n \<notin> set xs \<longrightarrow> fs1 n = fs n)"
proof (induction xs arbitrary: fs)
  case Nil
  then show ?case by simp
next
  case (Cons x xs)
  from Cons.prems obtain m where m: "original_fields x = Some m"
    by (cases "original_fields x") simp_all
  with Cons.prems have r: "merge_extra_fields xs original_fields (fs(x \<mapsto> m)) = Inr fs1"
    by simp
  from Cons.IH [OF r] have
    a: "\<And>n. n \<in> set xs \<Longrightarrow> fs1 n = original_fields n \<and> original_fields n \<noteq> None"
    and b: "\<And>n. n \<notin> set xs \<Longrightarrow> fs1 n = (fs(x \<mapsto> m)) n"
    by blast+
  have c: "fs1 x = original_fields x"
  proof (cases "x \<in> set xs")
    case True
    then show ?thesis using a by blast
  next
    case False
    then show ?thesis using b [of x] m by simp
  qed
  have "fs1 n = original_fields n \<and> original_fields n \<noteq> None" if "n \<in> set (x # xs)" for n
  proof (cases "n = x")
    case True
    then show ?thesis using c m by simp
  next
    case False
    then show ?thesis using a [of n] that by simp
  qed
  moreover have "fs1 n = fs n" if "n \<notin> set (x # xs)" for n
    using b [of n] that by simp
  ultimately show ?case by blast
qed

lemma addnext_root: "addnext [] x v = Inl TypeError"
  by (cases v) simp


lemma add_tab_pages_loop_root:
  "add_tab_pages_loop (t # ts) st v xs [] =
     (add_field t st, fst (add_invisible_extra_field v xs (get_visible_fieldname t)), Inl TypeError)"
  by (simp add: addnext_root add_invisible_extra_field_def)

lemma add_tab_pages_extra_fields:
  assumes "sections view \<noteq> []" "get_tabs e = Inr tabs"
    and "add_tab_pages e view st = (st1, view1, Inr xs)"
  shows "xs = id_marker view @ concat (map (\<lambda>t. [get_visible_fieldname t, get_fieldname t]) tabs)"
proof (cases "tag view = ''page''")
  case False
  with assms show ?thesis by (simp add: add_tab_pages_eq)
next
  case True
  then have h: "hd (xpath_page_last view) = []" by (simp add: xpath_page_last_def)
  from True have ne: "xpath_page_last view \<noteq> []" by (simp add: xpath_page_last_def)
  show ?thesis
  proof (cases tabs)
    case Nil
    with assms(2,3) ne show ?thesis by (simp add: add_tab_pages_unfold)
  next
    case (Cons t ts)
    with assms(2,3) ne h show ?thesis
      by (simp add: add_tab_pages_unfold add_tab_pages_loop_root del: add_tab_pages_loop.simps)
  qed
qed

text \<open>
  Claim C4, as the code has it. For a form view outside validation mode,
  \<open>fields_view_get\<close> composes the layout without reconciling: the cached revision is
  after the call what it was before. When it returns a result, that result carries
  the layout the post-processing made of the composed one, and its metadata map has,
  for every extra field name composition registered, the entry the post-processing
  returned for that name, the other entries being those of the base result. On a
  layout with sections the extra field names are the identity marker, when it was
  added, and then each declaration's visibility and relation field names. For a view
  type other than \<open>form\<close> the base result is returned as it is.
\<close>

theorem layout_fetch_composes_and_merges:
  assumes "\<not> context_check_view_ids e"
    and "fields_view_get e result ''form'' st = (st1, Inr r)"
  shows "(\<exists>view extra_fields original_fields.
           add_tab_pages e (arch result) st = (st1, view, Inr extra_fields) \<and>
           view_model_postprocess_and_fields e st1 view (view_id result)
             = Inr (arch r, original_fields) \<and>
           (\<forall>n\<in>set extra_fields. result_fields r n = original_fields n \<and> original_fields n \<noteq> None) \<and>
           (\<forall>n. n \<notin> set extra_fields \<longrightarrow> result_fields r n = result_fields result n) \<and>
           (sections (arch result) \<noteq> [] \<and> get_tabs e = Inr tabs \<longrightarrow>
              extra_fields = id_marker (arch result)
                 @ concat (map (\<lambda>t. [get_visible_fieldname t, get_fieldname t]) tabs))) \<and>
         tab_modification_sequence st1 = tab_modification_sequence st \<and>
         (view_type \<noteq> ''form'' \<longrightarrow> fields_view_get e result view_type st = (st, Inr result))"
proof -
  obtain st2 view out where a: "add_tab_pages e (arch result) st = (st2, view, out)"
    by (cases "add_tab_pages e (arch result) st") auto
  with assms obtain xs where out: "out = Inr xs" and st2: "st2 = st1"
    by (cases out) (auto simp: fields_view_get_def split: sum.splits prod.splits)
  from assms a out st2 obtain arch1 original_fields where
    pp: "view_model_postprocess_and_fields e st1 view (view_id result) = Inr (arch1, original_fields)"
    by (cases "view_model_postprocess_and_fields e st1 view (view_id result)")
       (auto simp: fields_view_get_def)
  from assms a out st2 pp obtain fs where
    m: "merge_extra_fields xs original_fields (result_fields result) = Inr fs"
    and r: "r = result\<lparr>arch := arch1, result_fields := fs\<rparr>"
    by (cases "merge_extra_fields xs original_fields (result_fields result)")
       (auto simp: fields_view_get_def)
  have x: "xs = id_marker (arch result)
                 @ concat (map (\<lambda>t. [get_visible_fieldname t, get_fieldname t]) tabs)"
    if "sections (arch result) \<noteq> []" "get_tabs e = Inr tabs"
    using add_tab_pages_extra_fields [OF that] a out st2 by simp
  from merge_extra_fields_result [OF m] a out st2 pp r x
  have A: "\<exists>view extra_fields original_fields.
           add_tab_pages e (arch result) st = (st1, view, Inr extra_fields) \<and>
           view_model_postprocess_and_fields e st1 view (view_id result)
             = Inr (arch r, original_fields) \<and>
           (\<forall>n\<in>set extra_fields. result_fields r n = original_fields n \<and> original_fields n \<noteq> None) \<and>
           (\<forall>n. n \<notin> set extra_fields \<longrightarrow> result_fields r n = result_fields result n) \<and>
           (sections (arch result) \<noteq> [] \<and> get_tabs e = Inr tabs \<longrightarrow>
              extra_fields = id_marker (arch result)
                 @ concat (map (\<lambda>t. [get_visible_fieldname t, get_fieldname t]) tabs))"
    by auto
  from add_tab_pages_sequence [of e "arch result" st] a st2
  have B: "tab_modification_sequence st1 = tab_modification_sequence st" by simp
  have C: "view_type \<noteq> ''form'' \<longrightarrow> fields_view_get e result view_type st = (st, Inr result)"
    by (simp add: fields_view_get_def)
  show ?thesis by (rule conjI [OF A conjI [OF B C]])
qed

theorem layout_fetch_composes_and_merges_witness:
  "\<not> context_check_view_ids (mk_env (Inr 5) (Inr [tab_A]) False) \<and>
   fields_view_get (mk_env (Inr 5) (Inr [tab_A]) False) (base_result view_one_page) ''form''
       fresh_class
     = (add_field tab_A fresh_class,
        Inr \<lparr>arch = Element ''form'' []
                      [Element ''notebook'' [] [page_of ''General'' ''name'', page_of ''A'' ''rel_1''],
                       invisible_field ''id'', invisible_field ''vis_1''],
             result_fields = [''id'' \<mapsto> [(''name'', ''id'')], ''vis_1'' \<mapsto> [(''name'', ''vis_1'')],
                              ''rel_1'' \<mapsto> [(''name'', ''rel_1'')]],
             view_id = 1\<rparr>) \<and>
   tab_modification_sequence (add_field tab_A fresh_class) = tab_modification_sequence fresh_class \<and>
   fields_view_get (mk_env (Inr 5) (Inr [tab_A]) False) (base_result view_one_page) ''tree''
       fresh_class
     = (fresh_class, Inr (base_result view_one_page))"
  using layout_fetch_composes_and_merges [of "mk_env (Inr 5) (Inr [tab_A]) False"
      "base_result view_one_page" fresh_class "add_field tab_A fresh_class"
      "\<lparr>arch = Element ''form'' []
                      [Element ''notebook'' [] [page_of ''General'' ''name'', page_of ''A'' ''rel_1''],
                       invisible_field ''id'', invisible_field ''vis_1''],
             result_fields = [''id'' \<mapsto> [(''name'', ''id'')], ''vis_1'' \<mapsto> [(''name'', ''vis_1'')],
                              ''rel_1'' \<mapsto> [(''name'', ''rel_1'')]],
             view_id = 1\<rparr>" "[tab_A]" "''tree''"]
  by (simp add: fields_view_get_def add_tab_pages_def xpath_page_last_def
      add_invisible_extra_field_def next_sibling_def view_one_page_def page_of_def
      invisible_field_def id_marker_def base_result_def mk_env_def get_tabs_def fresh_class_def ResPartner_def
      add_field_def BaseModel_add_field_def tab_A_def mk_tab_def Let_def)

text \<open>
  The claim as the specification words it fails: with the cache at 0 and the counter
  at 5, reconciliation would move the cache to 5, and after the layout fetch of a form
  it is still 0; and a fetch of a tree view, outside validation mode, returns the
  base layout although composing it would change it.
\<close>

theorem layout_fetch_skips_reconcile:
  "\<not> context_check_view_ids (mk_env (Inr 5) (Inr [tab_A]) False) \<and>
   sequence_model_get_sequence (mk_env (Inr 5) (Inr [tab_A]) False) = Inr 5 \<and>
   tab_modification_sequence (fst (update_tab_fields (mk_env (Inr 5) (Inr [tab_A]) False)
                                     fresh_class)) = 5 \<and>
   tab_modification_sequence (fst (fields_view_get (mk_env (Inr 5) (Inr [tab_A]) False)
                                     (base_result view_one_page) ''form'' fresh_class)) = 0 \<and>
   arch (projr (snd (fields_view_get (mk_env (Inr 5) (Inr [tab_A]) False)
                       (base_result view_one_page) ''tree'' fresh_class))) = view_one_page \<and>
   fst (snd (add_tab_pages (mk_env (Inr 5) (Inr [tab_A]) False) view_one_page fresh_class))
     \<noteq> view_one_page"
  by (simp add: fields_view_get_def add_tab_pages_def xpath_page_last_def
      add_invisible_extra_field_def next_sibling_def view_one_page_def page_of_def
      base_result_def mk_env_def get_tabs_def fresh_class_def ResPartner_def
      update_tab_fields_def need_tab_update_def set_tab_modification_sequence_def
      add_field_def BaseModel_add_field_def tab_A_def mk_tab_def Let_def)

end
